theory Spec2Isabelle
  imports Complex_Main "HOL-Library.Sublist" "HOL-Library.Multiset"
begin

section \<open>Values, exceptions and console output\<close>

text \<open>
  The script \<^verbatim>\<open>wikipedia_scraper_tool.py\<close> is glue over three libraries (requests,
  pandas, BeautifulSoup). Each of its functions is embedded below with the library calls
  written out as HOL functions on the data the script sees: a frame is an ordered list of
  column names with one row per record, a page is a tree of elements. What a library
  call does that the script cannot determine (the network, the HTML parser, how pandas
  prints and reads a floating point literal) is a parameter of the model.

  An \<^verbatim>\<open>int64\<close> cell is an \<^typ>\<open>int\<close>, a \<^verbatim>\<open>float64\<close> cell a \<^typ>\<open>real\<close>; there
  is no infinite value. The rounding of \<^verbatim>\<open>float64\<close> is not computed: where pandas may
  round what it reads, the number read is a parameter, and the mean is the exact quotient.
  Characters are bytes, so the classes of digits, whitespace and word characters below
  are the ASCII ones.
\<close>

text \<open>
  The exceptions of class \<^verbatim>\<open>Exception\<close> that the calls of the script raise. What is not
  of that class (\<^verbatim>\<open>KeyboardInterrupt\<close>, \<^verbatim>\<open>SystemExit\<close>) is not modelled.
\<close>

datatype exn =
  RequestException | AttributeError | TypeError | ValueError | KeyError | OSError | EOFError

datatype cell = Str string | IntV int | FloatV real | NaN

datatype dtype = Object | Numeric

datatype message =
    Attempting_to_scrape string
  | Found_tables nat
  | Found_population_table
  | No_population_table
  | Error_accessing_url exn
  | Error_scraping_tables exn
  | Data_not_valid
  | Data_cleaned
  | Average_population "real option"
  | Error_during_cleaning exn
  | No_data_to_plot
  | No_suitable_column
  | Chart_saved
  | Error_creating_chart exn
  | Analyzing_page string
  | No_main_sections
  | Section_counts string nat nat nat nat
  | No_content_for_section string
  | Unexpected_error exn
  | Program_terminated

section \<open>Text helpers\<close>

definition is_digit :: "char \<Rightarrow> bool" where
  "is_digit c = (48 \<le> (of_char c :: nat) \<and> (of_char c :: nat) \<le> 57)"

definition digit_val :: "char \<Rightarrow> nat" where
  "digit_val c = of_char c - 48"

definition digit_char :: "nat \<Rightarrow> char" where
  "digit_char d = ''0123456789'' ! d"

definition digits_to_nat :: "string \<Rightarrow> nat" where
  "digits_to_nat s = foldl (\<lambda>a c. 10 * a + digit_val c) 0 s"

definition all_digits :: "string \<Rightarrow> bool" where
  "all_digits s = (s \<noteq> [] \<and> list_all is_digit s)"

fun str_nat :: "nat \<Rightarrow> string" where
  "str_nat n = (if n < 10 then [digit_char n] else str_nat (n div 10) @ [digit_char (n mod 10)])"

definition str_int :: "int \<Rightarrow> string" where
  "str_int i = (if i < 0 then CHR ''-'' # str_nat (nat (- i)) else str_nat (nat i))"

text \<open>\<^verbatim>\<open>str.strip()\<close>: the ASCII characters for which \<^verbatim>\<open>str.isspace\<close> holds.\<close>

definition is_space :: "char \<Rightarrow> bool" where
  "is_space c = (c = CHR '' '' \<or> (9 \<le> (of_char c :: nat) \<and> (of_char c :: nat) \<le> 13)
                 \<or> (28 \<le> (of_char c :: nat) \<and> (of_char c :: nat) \<le> 31))"

definition strip :: "string \<Rightarrow> string" where
  "strip s = rev (dropWhile is_space (rev (dropWhile is_space s)))"

text \<open>\<^verbatim>\<open>sub in s\<close> on strings: \<open>sub\<close> occurs in \<open>s\<close> as a contiguous block.\<close>

fun contains :: "string \<Rightarrow> string \<Rightarrow> bool" where
  "contains sub [] = (sub = [])"
| "contains sub (c # cs) = (prefix sub (c # cs) \<or> contains sub cs)"

section \<open>The cleaning steps on one text cell\<close>

text \<open>\<^verbatim>\<open>.str.replace(',', '', regex=True)\<close>: every comma is removed.\<close>

definition remove_commas :: "string \<Rightarrow> string" where
  "remove_commas s = filter (\<lambda>c. c \<noteq> CHR '','') s"

text \<open>
  The pattern \<^verbatim>\<open>\[\d+\]\<close> at the start of a text: an opening bracket, the longest
  non-empty run of digits, a closing bracket. The result is the text after the match.
\<close>

fun match_marker :: "string \<Rightarrow> string option" where
  "match_marker [] = None"
| "match_marker (c # cs) =
     (if c = CHR ''['' \<and> takeWhile is_digit cs \<noteq> [] then
        (case dropWhile is_digit cs of
           [] \<Rightarrow> None
         | r # rs \<Rightarrow> if r = CHR '']'' then Some rs else None)
      else None)"

lemma match_marker_shorter: "match_marker s = Some r \<Longrightarrow> length r < length s"
proof (cases s)
  case Nil
  assume "match_marker s = Some r"
  with Nil show ?thesis by simp
next
  case (Cons c cs)
  assume m: "match_marker s = Some r"
  have "length (dropWhile is_digit cs) \<le> length cs"
    by (rule length_dropWhile_le)
  moreover from m Cons obtain x where "dropWhile is_digit cs = x # r"
    by (auto split: if_splits list.splits)
  ultimately show ?thesis using Cons by simp
qed

text \<open>
  \<^verbatim>\<open>.str.replace(r'\[\d+\]', '', regex=True)\<close>: scanning from the left, every match is
  removed and the scan resumes after it; a character where no match starts is kept.
\<close>

function remove_markers :: "string \<Rightarrow> string" where
  "remove_markers [] = []"
| "remove_markers (c # cs) =
     (case match_marker (c # cs) of
        Some r \<Rightarrow> remove_markers r
      | None \<Rightarrow> c # remove_markers cs)"
  by pat_completeness auto
termination
proof (relation "measure length")
  show "wf (measure length)" by simp
next
  fix c cs r
  assume "match_marker (c # cs) = Some r"
  then have "length r < length (c # cs)" by (rule match_marker_shorter)
  then show "(r, c # cs) \<in> measure length" by simp
next
  fix c :: char and cs :: string
  show "(cs, c # cs) \<in> measure length" by simp
qed

text \<open>
  What pandas does with a floating point cell, and with a text that is not a short
  decimal integer, is left open: \<open>float_repr\<close> is \<^verbatim>\<open>str\<close> of a float cell, and
  \<open>parse_other\<close> is the result of \<^verbatim>\<open>pd.to_numeric\<close> on any other text (\<open>None\<close> when it
  does not parse).
\<close>

record pandas =
  float_repr :: "real \<Rightarrow> string"
  parse_other :: "string \<Rightarrow> real option"

text \<open>
  \<^verbatim>\<open>pd.to_numeric(..., errors='coerce')\<close> on one text; \<open>None\<close> stands for the missing value
  the coercion produces. The column that results is of dtype \<^verbatim>\<open>int64\<close> when every text is
  an integer in range and of dtype \<^verbatim>\<open>float64\<close> otherwise, so what is read from a run of
  digits depends on its length. A run of at most 15 digits, also behind a minus sign, is
  the integer it denotes under either dtype: every integer of 15 decimal digits is a
  \<^verbatim>\<open>float64\<close>. A longer run is kept exactly only in an \<^verbatim>\<open>int64\<close> column; in a
  \<^verbatim>\<open>float64\<close> column it is rounded to 53 significant bits. What is read from a longer run
  is therefore left to \<open>parse_other\<close>. The text \<^verbatim>\<open>nan\<close> is missing.
\<close>

definition to_numeric :: "pandas \<Rightarrow> string \<Rightarrow> real option" where
  "to_numeric lib s =
     (if all_digits s \<and> length s \<le> 15 then Some (of_nat (digits_to_nat s))
      else if s \<noteq> [] \<and> hd s = CHR ''-'' \<and> all_digits (tl s) \<and> length (tl s) \<le> 15
        then Some (- of_nat (digits_to_nat (tl s)))
      else if s = ''nan'' then None
      else parse_other lib s)"

fun astype_str :: "pandas \<Rightarrow> cell \<Rightarrow> string" where
  "astype_str lib (Str s) = s"
| "astype_str lib (IntV i) = str_int i"
| "astype_str lib (FloatV x) = float_repr lib x"
| "astype_str lib NaN = ''nan''"

section \<open>Frames\<close>

text \<open>
  A \<^verbatim>\<open>DataFrame\<close>: the column labels in order, the dtype of each column, and the rows
  in order, each row a mapping from column label to cell. A label names one column; the
  row labels (the index) are not part of the model.
\<close>

record dataframe =
  columns :: "string list"
  dtypes :: "string \<Rightarrow> dtype"
  rows :: "(string \<Rightarrow> cell) list"

text \<open>\<^verbatim>\<open>pd.DataFrame()\<close> and \<^verbatim>\<open>df.empty\<close>.\<close>

definition empty_frame :: dataframe where
  "empty_frame = \<lparr>columns = [], dtypes = (\<lambda>c. Object), rows = []\<rparr>"

definition is_empty :: "dataframe \<Rightarrow> bool" where
  "is_empty df = (columns df = [] \<or> rows df = [])"

text \<open>\<^verbatim>\<open>df[c] = f(df[c])\<close> for an elementwise \<open>f\<close> whose result has dtype \<open>t\<close>.\<close>

definition assign_column :: "string \<Rightarrow> (cell \<Rightarrow> cell) \<Rightarrow> dtype \<Rightarrow> dataframe \<Rightarrow> dataframe" where
  "assign_column c f t df =
     df\<lparr>dtypes := (dtypes df)(c := t), rows := map (\<lambda>r. r(c := f (r c))) (rows df)\<rparr>"

text \<open>\<^verbatim>\<open>.str.replace\<close> on one cell: a cell that is not text becomes missing.\<close>

fun str_replace :: "(string \<Rightarrow> string) \<Rightarrow> cell \<Rightarrow> cell" where
  "str_replace f (Str s) = Str (f s)"
| "str_replace f v = NaN"

fun coerce_numeric :: "pandas \<Rightarrow> cell \<Rightarrow> cell" where
  "coerce_numeric lib (Str s) = (case to_numeric lib s of Some x \<Rightarrow> FloatV x | None \<Rightarrow> NaN)"
| "coerce_numeric lib v = v"

fun num_of :: "cell \<Rightarrow> real option" where
  "num_of (IntV i) = Some (of_int i)"
| "num_of (FloatV x) = Some x"
| "num_of v = None"

fun isna :: "cell \<Rightarrow> bool" where
  "isna NaN = True"
| "isna v = False"

text \<open>\<^verbatim>\<open>df.dropna(subset=[c], inplace=True)\<close>: the rows whose cell in \<open>c\<close> is missing go.\<close>

definition dropna :: "string \<Rightarrow> dataframe \<Rightarrow> dataframe" where
  "dropna c df = df\<lparr>rows := filter (\<lambda>r. \<not> isna (r c)) (rows df)\<rparr>"

text \<open>
  \<^verbatim>\<open>df.nlargest(n, c)\<close> with the default \<^verbatim>\<open>keep='first'\<close>: a column of dtype object is
  refused with a \<^verbatim>\<open>TypeError\<close>; otherwise the rows that have a value are ordered by
  descending value, rows of equal value in their original order (pandas negates the
  values and sorts them with a stable sort), the rows with a missing value follow, and
  the first \<open>n\<close> rows are returned as a new frame.
\<close>

definition sort_value :: "string \<Rightarrow> (string \<Rightarrow> cell) \<Rightarrow> real" where
  "sort_value c r = (case num_of (r c) of Some x \<Rightarrow> - x | None \<Rightarrow> 0)"

definition nlargest :: "nat \<Rightarrow> string \<Rightarrow> dataframe \<Rightarrow> exn + dataframe" where
  "nlargest n c df =
     (if dtypes df c = Object then Inl TypeError
      else Inr (df\<lparr>rows :=
        take n (sort_key (sort_value c) (filter (\<lambda>r. \<not> isna (r c)) (rows df))
                @ filter (\<lambda>r. isna (r c)) (rows df))\<rparr>))"

text \<open>\<^verbatim>\<open>df[c].mean()\<close>: missing values are skipped; the mean of no value is \<^verbatim>\<open>nan\<close>.\<close>

definition column_values :: "string \<Rightarrow> dataframe \<Rightarrow> real list" where
  "column_values c df = List.map_filter (\<lambda>r. num_of (r c)) (rows df)"

definition mean :: "real list \<Rightarrow> real option" where
  "mean xs = (if xs = [] then None else Some (sum_list xs / of_nat (length xs)))"

section \<open>clean\_and\_analyze\_population\_data\<close>

text \<open>
  The argument of the cleaner is any Python object. \<open>Frame\<close> is a frame of the data model,
  in which a label names one column. \<open>Two_population_columns\<close> is a frame in which two
  columns carry the label Population (its cells are not modelled): it passes the test of
  line 36, \<^verbatim>\<open>df['Population']\<close> is then a frame and not a column, and the \<^verbatim>\<open>.str\<close>
  accessor of line 42 raises \<^verbatim>\<open>AttributeError\<close>. \<open>NotAFrame\<close> is any other object.
\<close>

datatype pyobj = Frame dataframe | Two_population_columns | NotAFrame

text \<open>
  The frame is changed in place, so the function returns the caller's object as the call
  leaves it, the lines printed, and the value returned (\<open>None\<close> for Python's \<^verbatim>\<open>None\<close>).
  The five statements before \<^verbatim>\<open>nlargest\<close> are the five bindings of the \<open>let\<close>.
\<close>

definition clean_and_analyze_population_data ::
    "pandas \<Rightarrow> pyobj \<Rightarrow> pyobj \<times> message list \<times> dataframe option" where
  "clean_and_analyze_population_data lib obj =
     (case obj of
        NotAFrame \<Rightarrow> (obj, [Data_not_valid], None)
      | Two_population_columns \<Rightarrow> (obj, [Error_during_cleaning AttributeError], None)
      | Frame df \<Rightarrow>
          if ''Population'' \<notin> set (columns df) then (obj, [Data_not_valid], None)
          else
            let df1 = assign_column ''Population'' (\<lambda>v. Str (astype_str lib v)) Object df;
                df2 = assign_column ''Population'' (str_replace remove_commas) Object df1;
                df3 = assign_column ''Population'' (str_replace remove_markers) Object df2;
                df4 = assign_column ''Population'' (coerce_numeric lib) Numeric df3;
                df5 = dropna ''Population'' df4
            in (case nlargest 10 ''Population'' df5 of
                  Inl e \<Rightarrow> (Frame df5, [Data_cleaned, Error_during_cleaning e], None)
                | Inr top_10 \<Rightarrow>
                    (Frame df5,
                     [Data_cleaned, Average_population (mean (column_values ''Population'' df5))],
                     Some top_10)))"



text \<open>
  The number the four cleaning statements read from one cell of the column, \<open>None\<close>
  when the cell ends as a missing value.
\<close>

definition parsed :: "pandas \<Rightarrow> cell \<Rightarrow> real option" where
  "parsed lib v = to_numeric lib (remove_markers (remove_commas (astype_str lib v)))"

text \<open>The rows of the frame as the five statements before \<^verbatim>\<open>nlargest\<close> leave them.\<close>

definition cleaned_rows :: "pandas \<Rightarrow> (string \<Rightarrow> cell) list \<Rightarrow> (string \<Rightarrow> cell) list" where
  "cleaned_rows lib rs =
     map (\<lambda>r. r(''Population'' := FloatV (the (parsed lib (r ''Population'')))))
         (filter (\<lambda>r. parsed lib (r ''Population'') \<noteq> None) rs)"

text \<open>Frames to run the cleaner on: a country column and a Population column.\<close>

definition country_row :: "string \<Rightarrow> cell \<Rightarrow> string \<Rightarrow> cell" where
  "country_row name population = (\<lambda>c. NaN)(''Country'' := Str name, ''Population'' := population)"

definition four_countries :: dataframe where
  "four_countries =
     \<lparr>columns = [''Country'', ''Population''], dtypes = (\<lambda>c. Object),
      rows = [country_row ''A'' (Str ''5''), country_row ''B'' (Str ''3''),
              country_row ''C'' (Str ''9''), country_row ''D'' (Str ''1'')]\<rparr>"

text \<open>A pandas whose \<^verbatim>\<open>to_numeric\<close> reads nothing but plain integers.\<close>

definition integers_only :: pandas where
  "integers_only = \<lparr>float_repr = (\<lambda>x. ''nan''), parse_other = (\<lambda>s. None)\<rparr>"

definition three_valid :: dataframe where
  "three_valid =
     \<lparr>columns = [''Country'', ''Population''], dtypes = (\<lambda>c. Object),
      rows = [country_row ''A'' (Str ''1,000[1]''), country_row ''B'' (Str ''N/A''),
              country_row ''C'' (Str ''300''), country_row ''D'' (Str ''2,500'')]\<rparr>"

definition region_row :: "string \<Rightarrow> string \<Rightarrow> cell \<Rightarrow> string \<Rightarrow> cell" where
  "region_row name region population = (country_row name population)(''Region'' := Str region)"

definition with_regions :: dataframe where
  "with_regions =
     \<lparr>columns = [''Country'', ''Region'', ''Population''],
      dtypes = (\<lambda>c. if c = ''Population'' then Numeric else Object),
      rows = [region_row ''A'' ''Asia'' (IntV 1400), region_row ''B'' ''Europe'' NaN,
              region_row ''C'' ''Africa'' (IntV 200)]\<rparr>"


section \<open>scrape\_wiki\_tables\<close>

text \<open>
  A table as \<^verbatim>\<open>pd.read_html\<close> returns it. The column index of a table with a header row
  is an index of strings (\<open>Labelled\<close>); a table without header cells gets the integer
  positions 0, 1, ... as its column index, and a table with several header rows gets
  tuples (\<open>Unlabelled\<close>, with the cells row by row).
\<close>

datatype html_table = Labelled dataframe | Unlabelled "cell list list"

text \<open>
  Assigning \<open>map f\<close> of the labels as the new labels: each column keeps its dtype and
  cells under its new label.
\<close>

definition rename_columns :: "(string \<Rightarrow> string) \<Rightarrow> dataframe \<Rightarrow> dataframe" where
  "rename_columns f df =
     \<lparr>columns = map f (columns df),
      dtypes = (\<lambda>c'. case find (\<lambda>c. f c = c') (columns df) of
                        Some c \<Rightarrow> dtypes df c | None \<Rightarrow> Object),
      rows = map (\<lambda>r c'. case find (\<lambda>c. f c = c') (columns df) of
                             Some c \<Rightarrow> r c | None \<Rightarrow> NaN) (rows df)\<rparr>"

text \<open>
  \<^verbatim>\<open>table.columns = table.columns.str.strip()\<close>. The \<^verbatim>\<open>.str\<close> accessor exists on an
  index of strings only; on any other index it raises \<^verbatim>\<open>AttributeError\<close>.
\<close>

fun columns_str_strip :: "html_table \<Rightarrow> exn + dataframe" where
  "columns_str_strip (Labelled df) = Inr (rename_columns strip df)"
| "columns_str_strip (Unlabelled cells) = Inl AttributeError"

text \<open>
  The loop of lines 19 to 26: the lines printed and either the frame returned or the
  exception that leaves the loop.
\<close>

fun find_population_table :: "html_table list \<Rightarrow> message list \<times> (exn + dataframe)" where
  "find_population_table [] = ([No_population_table], Inr empty_frame)"
| "find_population_table (table # tables) =
     (case columns_str_strip table of
        Inl e \<Rightarrow> ([], Inl e)
      | Inr df \<Rightarrow>
          if ''Population'' \<in> set (columns df) then ([Found_population_table], Inr df)
          else find_population_table tables)"

text \<open>
  The network and the HTML table parser: \<open>http_get\<close> is \<^verbatim>\<open>requests.get\<close> followed by
  \<^verbatim>\<open>raise_for_status\<close> (the text of the page, or the exception raised), \<open>read_html\<close> is
  \<^verbatim>\<open>pd.read_html\<close>, which raises when the page has no table.
\<close>

record web =
  http_get :: "string \<Rightarrow> exn + string"
  read_html :: "string \<Rightarrow> exn + html_table list"

text \<open>The body of the \<^verbatim>\<open>try\<close>, then the function with its two handlers.\<close>

definition scrape_try :: "web \<Rightarrow> string \<Rightarrow> message list \<times> (exn + dataframe)" where
  "scrape_try env url =
     (case http_get env url of
        Inl e \<Rightarrow> ([], Inl e)
      | Inr text \<Rightarrow>
          (case read_html env text of
             Inl e \<Rightarrow> ([], Inl e)
           | Inr tables \<Rightarrow>
               (case find_population_table tables of
                  (out, r) \<Rightarrow> (Found_tables (length tables) # out, r))))"

definition scrape_wiki_tables :: "web \<Rightarrow> string \<Rightarrow> message list \<times> dataframe" where
  "scrape_wiki_tables env url =
     (case scrape_try env url of
        (out, Inr df) \<Rightarrow> (Attempting_to_scrape url # out, df)
      | (out, Inl e) \<Rightarrow>
          if e = RequestException
          then (Attempting_to_scrape url # out @ [Error_accessing_url e], empty_frame)
          else (Attempting_to_scrape url # out @ [Error_scraping_tables e], empty_frame))"

text \<open>
  Vocabulary for the claims: a table whose labels are text, a table whose stripped labels
  contain the exact name Population, and a table with its labels stripped.
\<close>

fun text_labels :: "html_table \<Rightarrow> bool" where
  "text_labels (Labelled df) = True"
| "text_labels (Unlabelled cells) = False"

fun has_population :: "html_table \<Rightarrow> bool" where
  "has_population (Labelled df) = (''Population'' \<in> set (map strip (columns df)))"
| "has_population (Unlabelled cells) = False"

fun stripped :: "html_table \<Rightarrow> dataframe" where
  "stripped (Labelled df) = rename_columns strip df"
| "stripped (Unlabelled cells) = empty_frame"

text \<open>Pages to run the extractor on.\<close>

definition infobox :: html_table where
  "infobox = Unlabelled [[Str ''Capital'', Str ''Paris''], [Str ''Currency'', Str ''Euro'']]"

definition timeline :: dataframe where
  "timeline =
     \<lparr>columns = [''Year'', ''Event''], dtypes = (\<lambda>c. Object),
      rows = [(\<lambda>c. NaN)(''Year'' := IntV 1990, ''Event'' := Str ''census'')]\<rparr>"

definition spaced_countries :: dataframe where
  "spaced_countries =
     \<lparr>columns = ['' Country'', ''Population ''], dtypes = (\<lambda>c. Object),
      rows = [(\<lambda>c. NaN)('' Country'' := Str ''A'', ''Population '' := Str ''5''),
              (\<lambda>c. NaN)('' Country'' := Str ''B'', ''Population '' := Str ''3'')]\<rparr>"

definition page_with :: "html_table list \<Rightarrow> web" where
  "page_with tables = \<lparr>http_get = (\<lambda>url. Inr ''<html>''), read_html = (\<lambda>text. Inr tables)\<rparr>"

section \<open>create\_population\_chart\<close>

text \<open>The two loops over \<^verbatim>\<open>df.columns\<close>, lines 67 to 70 and lines 73 to 76.\<close>

fun first_country_column :: "string list \<Rightarrow> string option" where
  "first_country_column [] = None"
| "first_country_column (col # cols) =
     (if contains ''Country'' col \<or> contains ''Dependency'' col then Some col
      else first_country_column cols)"

fun first_text_column :: "(string \<Rightarrow> dtype) \<Rightarrow> string list \<Rightarrow> string option" where
  "first_text_column dt [] = None"
| "first_text_column dt (col # cols) =
     (if dt col = Object \<and> \<not> contains ''Population'' col \<and> \<not> contains ''Region'' col
         \<and> \<not> contains ''Date'' col
      then Some col
      else first_text_column dt cols)"

text \<open>
  The argument is \<^verbatim>\<open>None\<close> or a frame. \<open>plot\<close> stands for lines 82 to 105, the calls to
  matplotlib and the file system for the label column chosen: \<open>None\<close> when they complete,
  the exception when one of them raises. The result is the lines printed and the label
  column handed to \<^verbatim>\<open>plt.bar\<close>, \<open>None\<close> when nothing is drawn.
\<close>

definition create_population_chart ::
    "(string \<Rightarrow> dataframe \<Rightarrow> exn option) \<Rightarrow> dataframe option \<Rightarrow> message list \<times> string option" where
  "create_population_chart plot obj =
     (case obj of
        None \<Rightarrow> ([No_data_to_plot], None)
      | Some df \<Rightarrow>
          if is_empty df then ([No_data_to_plot], None)
          else
            let country_col_name = first_country_column (columns df);
                country_col_name =
                  (if country_col_name = None then first_text_column (dtypes df) (columns df)
                   else country_col_name)
            in (case country_col_name of
                  None \<Rightarrow> ([No_suitable_column], None)
                | Some col \<Rightarrow>
                    (case plot col df of
                       None \<Rightarrow> ([Chart_saved], Some col)
                     | Some e \<Rightarrow> ([Error_creating_chart e], Some col))))"

text \<open>Ranked subsets to run the renderer on.\<close>

definition ranked_example :: dataframe where
  "ranked_example =
     \<lparr>columns = [''Country/Dependency'', ''Population'', ''Region''],
      dtypes = (\<lambda>c. if c = ''Population'' then Numeric else Object),
      rows = [(\<lambda>c. NaN)(''Country/Dependency'' := Str ''A'', ''Population'' := FloatV 9,
                             ''Region'' := Str ''Asia'')]\<rparr>"

definition no_label_example :: dataframe where
  "no_label_example =
     \<lparr>columns = [''Population'', ''Region''],
      dtypes = (\<lambda>c. if c = ''Population'' then Numeric else Object),
      rows = [(\<lambda>c. NaN)(''Population'' := FloatV 9, ''Region'' := Str ''Asia'')]\<rparr>"

section \<open>analyze\_page\_content and count\_attributes\_in\_section\<close>

text \<open>
  The tree BeautifulSoup builds: an element has a tag name, the values of its \<^verbatim>\<open>class\<close>
  attribute, the value of its \<^verbatim>\<open>id\<close> attribute if it has one, and its children in order;
  a text node has its text. The root stands for the \<^verbatim>\<open>BeautifulSoup\<close> object. An element
  found in the tree is referred to by its path, the child positions from the root, so
  that its parent and its siblings can be reached as the source reaches them.
\<close>

datatype node = Element string "string list" "string option" "node list" | Text string

text \<open>\<^verbatim>\<open>.text\<close>: the text nodes below a node, joined in document order.\<close>

fun get_text :: "node \<Rightarrow> string" where
  "get_text (Text s) = s"
| "get_text (Element t cls i cs) = concat (map get_text cs)"

text \<open>
  The nodes below a node in document order, as nodes and as paths; \<^verbatim>\<open>find_all\<close> and
  \<^verbatim>\<open>find\<close> search them.
\<close>

fun descendants :: "node \<Rightarrow> node list" where
  "descendants (Text s) = []"
| "descendants (Element t cls i cs) = concat (map (\<lambda>c. c # descendants c) cs)"

fun descendant_paths :: "node \<Rightarrow> nat list list"
  and child_paths :: "nat \<Rightarrow> node list \<Rightarrow> nat list list" where
  "descendant_paths (Text s) = []"
| "descendant_paths (Element t cls i cs) = child_paths 0 cs"
| "child_paths k [] = []"
| "child_paths k (c # cs) = [k] # map ((#) k) (descendant_paths c) @ child_paths (Suc k) cs"

fun subtree :: "node \<Rightarrow> nat list \<Rightarrow> node option" where
  "subtree n [] = Some n"
| "subtree (Text s) (k # p) = None"
| "subtree (Element t cls i cs) (k # p) = (if k < length cs then subtree (cs ! k) p else None)"


text \<open>
  The three searches of the source: a tag name alone, \<^verbatim>\<open>span\<close> with the class
  \<^verbatim>\<open>mw-headline\<close>, and \<^verbatim>\<open>div\<close> with the id \<^verbatim>\<open>mw-content-text\<close>.
\<close>

fun has_tag :: "string \<Rightarrow> node \<Rightarrow> bool" where
  "has_tag name (Element t cls i cs) = (t = name)"
| "has_tag name (Text s) = False"

fun is_headline :: "node \<Rightarrow> bool" where
  "is_headline (Element t cls i cs) = (t = ''span'' \<and> ''mw-headline'' \<in> set cls)"
| "is_headline (Text s) = False"

fun is_content_text :: "node \<Rightarrow> bool" where
  "is_content_text (Element t cls i cs) = (t = ''div'' \<and> i = Some ''mw-content-text'')"
| "is_content_text (Text s) = False"

definition find_all :: "(node \<Rightarrow> bool) \<Rightarrow> node \<Rightarrow> node list" where
  "find_all P n = filter P (descendants n)"

definition find_first :: "(node \<Rightarrow> bool) \<Rightarrow> node \<Rightarrow> node option" where
  "find_first P n = (case find_all P n of [] \<Rightarrow> None | x # xs \<Rightarrow> Some x)"

definition find_all_paths :: "(node \<Rightarrow> bool) \<Rightarrow> node \<Rightarrow> nat list list" where
  "find_all_paths P soup =
     filter (\<lambda>p. case subtree soup p of Some n \<Rightarrow> P n | None \<Rightarrow> False) (descendant_paths soup)"

text \<open>
  \<^verbatim>\<open>.parent\<close> of the element at a path, and \<^verbatim>\<open>.find_next_sibling(name)\<close> of the
  element at a path: the first element of that tag name among the later children of its
  parent. The root has no sibling.
\<close>

definition parent :: "nat list \<Rightarrow> nat list" where
  "parent p = butlast p"

definition find_next_sibling :: "node \<Rightarrow> nat list \<Rightarrow> string \<Rightarrow> node option" where
  "find_next_sibling soup p name =
     (if p = [] then None
      else (case subtree soup (butlast p) of
              Some (Element t cls i cs) \<Rightarrow> find (has_tag name) (drop (Suc (last p)) cs)
            | Some (Text s) \<Rightarrow> None
            | None \<Rightarrow> None))"

definition text_at :: "node \<Rightarrow> nat list \<Rightarrow> string" where
  "text_at soup p = (case subtree soup p of Some n \<Rightarrow> get_text n | None \<Rightarrow> [])"

text \<open>\<^verbatim>\<open>re.findall(r'\w+', text)\<close>: the maximal runs of letters, digits and underscores.\<close>

definition is_word_char :: "char \<Rightarrow> bool" where
  "is_word_char c =
     (is_digit c \<or> c = CHR ''_''
      \<or> (65 \<le> (of_char c :: nat) \<and> (of_char c :: nat) \<le> 90)
      \<or> (97 \<le> (of_char c :: nat) \<and> (of_char c :: nat) \<le> 122))"

fun findall_words :: "string \<Rightarrow> string \<Rightarrow> string list" where
  "findall_words w [] = (if w = [] then [] else [w])"
| "findall_words w (c # cs) =
     (if is_word_char c then findall_words (w @ [c]) cs
      else (if w = [] then [] else [w]) @ findall_words [] cs)"

text \<open>The seven lines \<^verbatim>\<open>count_attributes_in_section\<close> prints are one message.\<close>

definition count_attributes_in_section :: "string \<Rightarrow> node \<Rightarrow> message" where
  "count_attributes_in_section section_name content_soup =
     (let paragraphs = find_all (has_tag ''p'') content_soup;
          paragraph_count = length paragraphs;
          hyperlink_count = sum_list (map (\<lambda>p. length (find_all (has_tag ''a'') p)) paragraphs);
          picture_count = sum_list (map (\<lambda>p. length (find_all (has_tag ''img'') p)) paragraphs);
          word_count = sum_list (map (\<lambda>p. length (findall_words [] (get_text p))) paragraphs)
      in Section_counts section_name paragraph_count hyperlink_count picture_count word_count)"

text \<open>The loop of lines 127 to 134 over the headings found.\<close>

fun analyze_sections :: "node \<Rightarrow> nat list list \<Rightarrow> message list" where
  "analyze_sections soup [] = []"
| "analyze_sections soup (header_span # section_headers) =
     (let section_name = text_at soup header_span;
          content_div = find_next_sibling soup (parent header_span) ''div''
      in (case content_div of
            Some d \<Rightarrow> count_attributes_in_section section_name d
          | None \<Rightarrow> No_content_for_section section_name))
     # analyze_sections soup section_headers"

text \<open>
  The two handlers of lines 136 to 139, and the function: \<open>html5lib\<close> stands for
  \<^verbatim>\<open>BeautifulSoup(response.text, 'html5lib')\<close>, the tree or the exception raised.
\<close>

definition analysis_error :: "exn \<Rightarrow> message" where
  "analysis_error e = (if e = RequestException then Error_accessing_url e else Unexpected_error e)"

definition analyze_page_content :: "web \<Rightarrow> (string \<Rightarrow> exn + node) \<Rightarrow> string \<Rightarrow> message list" where
  "analyze_page_content env html5lib url =
     Analyzing_page url #
     (case http_get env url of
        Inl e \<Rightarrow> [analysis_error e]
      | Inr text \<Rightarrow>
          (case html5lib text of
             Inl e \<Rightarrow> [analysis_error e]
           | Inr soup \<Rightarrow>
               (let section_headers = find_all_paths is_headline soup in
                if section_headers = [] then
                  No_main_sections #
                  (case find_first is_content_text soup of
                     Some body_content \<Rightarrow> [count_attributes_in_section ''Main Content'' body_content]
                   | None \<Rightarrow> [])
                else analyze_sections soup section_headers)))"

text \<open>The names of the sections a run reports counts for, and pages to analyse.\<close>

fun section_name_of :: "message \<Rightarrow> string option" where
  "section_name_of (Section_counts name ps hs ims ws) = Some name"
| "section_name_of m = None"

definition reported_sections :: "message list \<Rightarrow> string list" where
  "reported_sections out = List.map_filter section_name_of out"

definition document :: "node list \<Rightarrow> node" where
  "document body =
     Element ''[document]'' [] None
       [Element ''html'' [] None [Element ''head'' [] None [], Element ''body'' [] None body]]"

definition plain_page :: node where
  "plain_page =
     document
       [Element ''div'' [] (Some ''mw-content-text'')
          [Element ''p'' [] None [Text ''Hello world '', Element ''a'' [] None [Text ''link'']],
           Element ''p'' [] None [Element ''img'' [] None []]]]"

definition bare_page :: node where
  "bare_page = document [Element ''p'' [] None [Text ''Hello'']]"

definition two_sections :: node where
  "two_sections =
     document
       [Element ''section'' [] None
          [Element ''h2'' [] None [Element ''span'' [''mw-headline''] None [Text ''History'']],
           Element ''p'' [] None [Text ''Long ago'']],
        Element ''section'' [] None
          [Element ''h2'' [] None [Element ''span'' [''mw-headline''] None [Text ''Geography'']],
           Element ''div'' [] None [Element ''p'' [] None [Text ''Two words'']]]]"



section \<open>Calls and the main program\<close>








section \<open>Cleaning one cell\<close>












section \<open>The cleaner, statement by statement\<close>

lemma cleaned_cell_parsed:
  "coerce_numeric lib (str_replace remove_markers (str_replace remove_commas (Str (astype_str lib v))))
   = (case parsed lib v of Some x \<Rightarrow> FloatV x | None \<Rightarrow> NaN)"
  by (simp add: parsed_def)

lemma isna_cleaned:
  "isna (case parsed lib v of Some x \<Rightarrow> FloatV x | None \<Rightarrow> NaN) \<longleftrightarrow> parsed lib v = None"
  by (cases "parsed lib v") simp_all

lemma five_steps:
  "dropna ''Population''
     (assign_column ''Population'' (coerce_numeric lib) Numeric
       (assign_column ''Population'' (str_replace remove_markers) Object
         (assign_column ''Population'' (str_replace remove_commas) Object
           (assign_column ''Population'' (\<lambda>v. Str (astype_str lib v)) Object df))))
   = df\<lparr>dtypes := (dtypes df)(''Population'' := Numeric), rows := cleaned_rows lib (rows df)\<rparr>"
proof -
  have "filter (\<lambda>r. \<not> isna (r ''Population''))
          (map (\<lambda>r. r(''Population'' := (case parsed lib (r ''Population'') of Some x \<Rightarrow> FloatV x | None \<Rightarrow> NaN))) rs)
        = cleaned_rows lib rs" for rs
    by (induction rs) (auto simp: cleaned_rows_def isna_cleaned)
  then show ?thesis
    by (simp add: dropna_def assign_column_def cleaned_cell_parsed o_def parsed_def)
qed

lemma cleaned_rows_number:
  "r \<in> set (cleaned_rows lib rs) \<Longrightarrow> \<exists>x. r ''Population'' = FloatV x"
  by (auto simp: cleaned_rows_def)

lemma cleaned_rows_present: "filter (\<lambda>r. \<not> isna (r ''Population'')) (cleaned_rows lib rs) = cleaned_rows lib rs"
  by (auto simp: filter_id_conv dest: cleaned_rows_number)

lemma cleaned_rows_missing: "filter (\<lambda>r. isna (r ''Population'')) (cleaned_rows lib rs) = []"
  by (auto simp: filter_empty_conv dest: cleaned_rows_number)

lemma clean_frame:
  assumes "''Population'' \<in> set (columns df)"
  shows "clean_and_analyze_population_data lib (Frame df) =
     (Frame (df\<lparr>dtypes := (dtypes df)(''Population'' := Numeric), rows := cleaned_rows lib (rows df)\<rparr>),
      [Data_cleaned, Average_population (mean (List.map_filter (\<lambda>r. num_of (r ''Population'')) (cleaned_rows lib (rows df))))],
      Some (df\<lparr>dtypes := (dtypes df)(''Population'' := Numeric),
               rows := take 10 (sort_key (sort_value ''Population'') (cleaned_rows lib (rows df)))\<rparr>))"
  using assms
  by (simp add: clean_and_analyze_population_data_def five_steps nlargest_def column_values_def
      cleaned_rows_present cleaned_rows_missing Let_def)


lemma cleaned_rows_values:
  "List.map_filter (\<lambda>r. num_of (r ''Population'')) (cleaned_rows lib rs)
   = map (\<lambda>r. the (parsed lib (r ''Population''))) (filter (\<lambda>r. parsed lib (r ''Population'') \<noteq> None) rs)"
  by (induction rs) (auto simp: cleaned_rows_def List.map_filter_simps)

lemma sorted_negated: "sorted (map (\<lambda>x. - x) xs) \<Longrightarrow> sorted_wrt (\<lambda>a b. b \<le> a) (xs :: real list)"
  by (induction xs) auto

lemma numbers_of_cleaned:
  "set rs \<subseteq> set (cleaned_rows lib rs0) \<Longrightarrow>
   map (\<lambda>r. r ''Population'') rs = map FloatV (map (\<lambda>r. - sort_value ''Population'' r) rs)"
  by (induction rs) (auto simp: sort_value_def dest: cleaned_rows_number)

text \<open>
  C1. On a frame that has a Population column the cleaner returns a ranked subset: its
  size is the smaller of 10 and the number of rows whose Population parsed to a number,
  its Population values are numbers in descending order, its rows are rows of the cleaned
  frame (all of them when at most 10 are left), and no row left out has a larger value
  than a row returned. Populations 5, 3, 9, 1 come back as 9, 5, 3, 1.
\<close>

theorem ranked_subset_size_and_order:
  assumes "''Population'' \<in> set (columns df)"
  shows "\<exists>df' msgs top_10 xs.
     clean_and_analyze_population_data lib (Frame df) = (Frame df', msgs, Some top_10)
     \<and> length (rows top_10)
         = min 10 (length (filter (\<lambda>r. parsed lib (r ''Population'') \<noteq> None) (rows df)))
     \<and> map (\<lambda>r. r ''Population'') (rows top_10) = map FloatV xs
     \<and> sorted_wrt (\<lambda>a b. b \<le> a) xs
     \<and> mset (rows top_10) \<subseteq># mset (rows df')
     \<and> (length (rows df') \<le> 10 \<longrightarrow> mset (rows top_10) = mset (rows df'))
     \<and> (\<forall>r \<in># mset (rows df') - mset (rows top_10). \<forall>t \<in> set (rows top_10).
            the (num_of (r ''Population'')) \<le> the (num_of (t ''Population'')))"
proof -
  let ?rs = "cleaned_rows lib (rows df)"
  let ?ys = "sort_key (sort_value ''Population'') ?rs"
  let ?top = "take 10 ?ys"
  let ?xs = "map (\<lambda>r. - sort_value ''Population'' r) ?top"
  have len: "length ?top = min 10 (length (filter (\<lambda>r. parsed lib (r ''Population'') \<noteq> None) (rows df)))"
    by (simp add: cleaned_rows_def)
  have sub: "set ?top \<subseteq> set ?rs"
    using set_take_subset [of 10 ?ys] by simp
  have num: "map (\<lambda>r. r ''Population'') ?top = map FloatV ?xs"
    using sub by (rule numbers_of_cleaned)
  have "sorted (map (sort_value ''Population'') ?ys)"
    by (rule sorted_sort_key)
  then have "sorted (take 10 (map (sort_value ''Population'') ?ys))"
    by (rule sorted_wrt_take)
  then have "sorted (map (\<lambda>x. - x) ?xs)"
    by (simp add: take_map o_def)
  then have srt: "sorted_wrt (\<lambda>a b. b \<le> a) ?xs"
    by (rule sorted_negated)
  have split: "mset ?ys = mset ?top + mset (drop 10 ?ys)"
    by (metis append_take_drop_id mset_append)
  then have ms: "mset ?top \<subseteq># mset ?rs"
    by (metis mset_sort mset_subset_eq_add_left)
  have all: "length ?rs \<le> 10 \<longrightarrow> mset ?top = mset ?rs"
    by simp
  have rest: "mset ?rs - mset ?top = mset (drop 10 ?ys)"
    using split by (metis add_diff_cancel_left' mset_sort)
  have "sorted (map (sort_value ''Population'') (?top @ drop 10 ?ys))"
    using sorted_sort_key [of "sort_value ''Population''" ?rs] by simp
  then have le: "\<forall>t \<in> set ?top. \<forall>r \<in> set (drop 10 ?ys).
      sort_value ''Population'' t \<le> sort_value ''Population'' r"
    unfolding map_append sorted_append by simp
  have big: "\<forall>r \<in># mset ?rs - mset ?top. \<forall>t \<in> set ?top.
      the (num_of (r ''Population'')) \<le> the (num_of (t ''Population''))"
  proof (intro ballI)
    fix r t
    assume r: "r \<in># mset ?rs - mset ?top" and t: "t \<in> set ?top"
    from r rest have r': "r \<in> set (drop 10 ?ys)" by simp
    then have "r \<in> set ?ys" by (rule in_set_dropD)
    then obtain x where x: "r ''Population'' = FloatV x"
      using cleaned_rows_number [of r lib "rows df"] by auto
    from t sub obtain y where y: "t ''Population'' = FloatV y"
      using cleaned_rows_number [of t lib "rows df"] by auto
    from le t r' have "sort_value ''Population'' t \<le> sort_value ''Population'' r" by blast
    with x y show "the (num_of (r ''Population'')) \<le> the (num_of (t ''Population''))"
      by (simp add: sort_value_def)
  qed
  let ?df' = "df\<lparr>dtypes := (dtypes df)(''Population'' := Numeric), rows := ?rs\<rparr>"
  let ?t = "df\<lparr>dtypes := (dtypes df)(''Population'' := Numeric), rows := ?top\<rparr>"
  have "clean_and_analyze_population_data lib (Frame df)
        = (Frame ?df', [Data_cleaned, Average_population
             (mean (List.map_filter (\<lambda>r. num_of (r ''Population'')) ?rs))], Some ?t)"
    using assms by (rule clean_frame)
  moreover have "length (rows ?t)
      = min 10 (length (filter (\<lambda>r. parsed lib (r ''Population'') \<noteq> None) (rows df)))"
    using len by simp
  moreover have "map (\<lambda>r. r ''Population'') (rows ?t) = map FloatV ?xs"
    using num by simp
  moreover have "mset (rows ?t) \<subseteq># mset (rows ?df')"
    using ms by simp
  moreover have "length (rows ?df') \<le> 10 \<longrightarrow> mset (rows ?t) = mset (rows ?df')"
    using all by simp
  moreover have "\<forall>r \<in># mset (rows ?df') - mset (rows ?t). \<forall>t \<in> set (rows ?t).
      the (num_of (r ''Population'')) \<le> the (num_of (t ''Population''))"
    using big by simp
  ultimately show ?thesis
    using srt by blast
qed


lemma parsed_digit [simp]:
  "parsed lib (Str ''5'') = Some 5" "parsed lib (Str ''3'') = Some 3"
  "parsed lib (Str ''9'') = Some 9" "parsed lib (Str ''1'') = Some 1"
  by (simp_all add: parsed_def remove_commas_def to_numeric_def all_digits_def is_digit_def
      digits_to_nat_def digit_val_def)

lemma four_countries_cleaned:
  "cleaned_rows lib (rows four_countries) =
     [country_row ''A'' (FloatV 5), country_row ''B'' (FloatV 3),
      country_row ''C'' (FloatV 9), country_row ''D'' (FloatV 1)]"
  by (simp add: cleaned_rows_def four_countries_def country_row_def)

lemma four_countries_sorted:
  "sort_key (sort_value ''Population'')
     [country_row ''A'' (FloatV 5), country_row ''B'' (FloatV 3),
      country_row ''C'' (FloatV 9), country_row ''D'' (FloatV 1)]
   = [country_row ''C'' (FloatV 9), country_row ''A'' (FloatV 5),
      country_row ''B'' (FloatV 3), country_row ''D'' (FloatV 1)]"
  by (simp add: sort_value_def country_row_def)

theorem ranked_subset_size_and_order_witness:
  "''Population'' \<in> set (columns four_countries) \<and>
   (\<forall>lib. \<exists>df' msgs top_10.
      clean_and_analyze_population_data lib (Frame four_countries) = (Frame df', msgs, Some top_10)
      \<and> length (rows top_10) = 4
      \<and> map (\<lambda>r. r ''Population'') (rows top_10) = [FloatV 9, FloatV 5, FloatV 3, FloatV 1]
      \<and> map (\<lambda>r. r ''Country'') (rows top_10) = [Str ''C'', Str ''A'', Str ''B'', Str ''D''])"
proof (intro conjI allI)
  show p: "''Population'' \<in> set (columns four_countries)"
    by (simp add: four_countries_def)
  fix lib
  from ranked_subset_size_and_order [OF p, of lib] obtain df' msgs top_10 where
    c: "clean_and_analyze_population_data lib (Frame four_countries) = (Frame df', msgs, Some top_10)"
    by blast
  have "rows top_10 = [country_row ''C'' (FloatV 9), country_row ''A'' (FloatV 5),
      country_row ''B'' (FloatV 3), country_row ''D'' (FloatV 1)]"
    using c unfolding clean_frame [OF p] four_countries_cleaned four_countries_sorted
    by auto
  then have "length (rows top_10) = 4
      \<and> map (\<lambda>r. r ''Population'') (rows top_10) = [FloatV 9, FloatV 5, FloatV 3, FloatV 1]
      \<and> map (\<lambda>r. r ''Country'') (rows top_10) = [Str ''C'', Str ''A'', Str ''B'', Str ''D'']"
    by (simp add: country_row_def)
  with c show "\<exists>df' msgs top_10.
      clean_and_analyze_population_data lib (Frame four_countries) = (Frame df', msgs, Some top_10)
      \<and> length (rows top_10) = 4
      \<and> map (\<lambda>r. r ''Population'') (rows top_10) = [FloatV 9, FloatV 5, FloatV 3, FloatV 1]
      \<and> map (\<lambda>r. r ''Country'') (rows top_10) = [Str ''C'', Str ''A'', Str ''B'', Str ''D'']"
    apply -
    apply (rule exI [of _ "df'"], rule exI [of _ msgs], rule exI [of _ top_10])
    apply simp
    done
qed

text \<open>
  C3. On a frame that has a Population column, a row whose Population does not parse to
  a number after cleaning is dropped from the frame as a whole row: the frame keeps exactly
  the rows that parsed, the mean that is printed is the mean of exactly their values, and
  every row of the ranked subset is one of them.
\<close>

theorem unparsed_rows_excluded:
  assumes "''Population'' \<in> set (columns df)"
  shows "\<exists>df' top_10.
     clean_and_analyze_population_data lib (Frame df) =
       (Frame df',
        [Data_cleaned,
         Average_population (mean (map (\<lambda>r. the (parsed lib (r ''Population'')))
           (filter (\<lambda>r. parsed lib (r ''Population'') \<noteq> None) (rows df))))],
        Some top_10)
     \<and> rows df' = map (\<lambda>r. r(''Population'' := FloatV (the (parsed lib (r ''Population'')))))
                      (filter (\<lambda>r. parsed lib (r ''Population'') \<noteq> None) (rows df))
     \<and> length (rows df') + length (filter (\<lambda>r. parsed lib (r ''Population'') = None) (rows df))
         = length (rows df)
     \<and> set (rows top_10) \<subseteq> set (rows df')"
proof -
  let ?rs = "cleaned_rows lib (rows df)"
  let ?df' = "df\<lparr>dtypes := (dtypes df)(''Population'' := Numeric), rows := ?rs\<rparr>"
  let ?t = "df\<lparr>dtypes := (dtypes df)(''Population'' := Numeric),
               rows := take 10 (sort_key (sort_value ''Population'') ?rs)\<rparr>"
  have "clean_and_analyze_population_data lib (Frame df) =
       (Frame ?df',
        [Data_cleaned,
         Average_population (mean (map (\<lambda>r. the (parsed lib (r ''Population'')))
           (filter (\<lambda>r. parsed lib (r ''Population'') \<noteq> None) (rows df))))],
        Some ?t)"
    using clean_frame [OF assms, of lib] by (simp add: cleaned_rows_values)
  moreover have "rows ?df' = map (\<lambda>r. r(''Population'' := FloatV (the (parsed lib (r ''Population'')))))
                      (filter (\<lambda>r. parsed lib (r ''Population'') \<noteq> None) (rows df))"
    by (simp add: cleaned_rows_def)
  moreover have "length (rows ?df') + length (filter (\<lambda>r. parsed lib (r ''Population'') = None) (rows df))
         = length (rows df)"
    using sum_length_filter_compl [of "\<lambda>r. parsed lib (r ''Population'') \<noteq> None" "rows df"]
    by (simp add: cleaned_rows_def)
  moreover have "set (rows ?t) \<subseteq> set (rows ?df')"
    using set_take_subset [of 10 "sort_key (sort_value ''Population'') ?rs"] by simp
  ultimately show ?thesis by blast
qed

text \<open>
  C9. The cleaner changes the caller's frame in place. After a call that returns a ranked
  subset, the caller's frame has the same column labels, its Population column holds the
  parsed numbers (dtype numeric), its rows are the rows that parsed, in their original
  order, and every other column keeps its dtype and, row by row, its original cells.
\<close>

theorem cleaner_mutates_in_place:
  assumes "''Population'' \<in> set (columns df)"
  shows "\<exists>df' msgs top_10.
     clean_and_analyze_population_data lib (Frame df) = (Frame df', msgs, Some top_10)
     \<and> columns df' = columns df
     \<and> rows df' = map (\<lambda>r. r(''Population'' := FloatV (the (parsed lib (r ''Population'')))))
                      (filter (\<lambda>r. parsed lib (r ''Population'') \<noteq> None) (rows df))
     \<and> dtypes df' ''Population'' = Numeric
     \<and> (\<forall>c. c \<noteq> ''Population'' \<longrightarrow>
           dtypes df' c = dtypes df c
           \<and> map (\<lambda>r. r c) (rows df')
               = map (\<lambda>r. r c) (filter (\<lambda>r. parsed lib (r ''Population'') \<noteq> None) (rows df)))"
proof -
  let ?rs = "cleaned_rows lib (rows df)"
  let ?df' = "df\<lparr>dtypes := (dtypes df)(''Population'' := Numeric), rows := ?rs\<rparr>"
  have "\<exists>msgs top_10. clean_and_analyze_population_data lib (Frame df) = (Frame ?df', msgs, Some top_10)"
    using clean_frame [OF assms, of lib] by simp
  moreover have "columns ?df' = columns df" by simp
  moreover have "rows ?df' = map (\<lambda>r. r(''Population'' := FloatV (the (parsed lib (r ''Population'')))))
                      (filter (\<lambda>r. parsed lib (r ''Population'') \<noteq> None) (rows df))"
    by (simp add: cleaned_rows_def)
  moreover have "dtypes ?df' ''Population'' = Numeric" by simp
  moreover have "\<forall>c. c \<noteq> ''Population'' \<longrightarrow>
           dtypes ?df' c = dtypes df c
           \<and> map (\<lambda>r. r c) (rows ?df')
               = map (\<lambda>r. r c) (filter (\<lambda>r. parsed lib (r ''Population'') \<noteq> None) (rows df))"
    by (simp add: cleaned_rows_def o_def)
  ultimately show ?thesis by blast
qed




lemma parsed_three_valid:
  "parsed integers_only (Str ''1,000[1]'') = Some 1000"
  "parsed integers_only (Str ''N/A'') = None"
  "parsed integers_only (Str ''300'') = Some 300"
  "parsed integers_only (Str ''2,500'') = Some 2500"
  by (simp_all add: parsed_def remove_commas_def to_numeric_def all_digits_def is_digit_def
      digits_to_nat_def digit_val_def integers_only_def)

lemma parsed_with_regions:
  "parsed lib (IntV 1400) = Some 1400" "parsed lib NaN = None" "parsed lib (IntV 200) = Some 200"
  by (simp_all add: parsed_def remove_commas_def to_numeric_def all_digits_def is_digit_def
      digits_to_nat_def digit_val_def str_int_def digit_char_def)


theorem unparsed_rows_excluded_witness:
  "''Population'' \<in> set (columns three_valid) \<and>
   (\<exists>df' top_10.
      clean_and_analyze_population_data integers_only (Frame three_valid)
        = (Frame df', [Data_cleaned, Average_population (Some (3800 / 3))], Some top_10)
      \<and> map (\<lambda>r. r ''Country'') (rows df') = [Str ''A'', Str ''C'', Str ''D'']
      \<and> map (\<lambda>r. r ''Population'') (rows df') = [FloatV 1000, FloatV 300, FloatV 2500]
      \<and> set (rows top_10) \<subseteq> set (rows df'))"
proof (intro conjI)
  show p: "''Population'' \<in> set (columns three_valid)"
    by (simp add: three_valid_def)
  have f: "filter (\<lambda>r. parsed integers_only (r ''Population'') \<noteq> None) (rows three_valid)
      = [country_row ''A'' (Str ''1,000[1]''), country_row ''C'' (Str ''300''),
         country_row ''D'' (Str ''2,500'')]"
    by (simp add: three_valid_def country_row_def parsed_three_valid)
  from unparsed_rows_excluded [OF p, of integers_only] obtain df' top_10 where
    c: "clean_and_analyze_population_data integers_only (Frame three_valid) =
       (Frame df',
        [Data_cleaned,
         Average_population (mean (map (\<lambda>r. the (parsed integers_only (r ''Population'')))
           (filter (\<lambda>r. parsed integers_only (r ''Population'') \<noteq> None) (rows three_valid))))],
        Some top_10)"
    and r: "rows df' = map (\<lambda>r. r(''Population'' := FloatV (the (parsed integers_only (r ''Population'')))))
             (filter (\<lambda>r. parsed integers_only (r ''Population'') \<noteq> None) (rows three_valid))"
    and t: "set (rows top_10) \<subseteq> set (rows df')"
    by blast
  have m: "mean (map (\<lambda>r. the (parsed integers_only (r ''Population'')))
           (filter (\<lambda>r. parsed integers_only (r ''Population'') \<noteq> None) (rows three_valid)))
        = Some (3800 / 3)"
    unfolding f by (simp add: mean_def country_row_def parsed_three_valid)
  have r1: "map (\<lambda>r. r ''Country'') (rows df') = [Str ''A'', Str ''C'', Str ''D'']"
    unfolding r f by (simp add: country_row_def)
  have r2: "map (\<lambda>r. r ''Population'') (rows df') = [FloatV 1000, FloatV 300, FloatV 2500]"
    unfolding r f by (simp add: country_row_def parsed_three_valid)
  from c m r1 r2 t show "\<exists>df' top_10.
      clean_and_analyze_population_data integers_only (Frame three_valid)
        = (Frame df', [Data_cleaned, Average_population (Some (3800 / 3))], Some top_10)
      \<and> map (\<lambda>r. r ''Country'') (rows df') = [Str ''A'', Str ''C'', Str ''D'']
      \<and> map (\<lambda>r. r ''Population'') (rows df') = [FloatV 1000, FloatV 300, FloatV 2500]
      \<and> set (rows top_10) \<subseteq> set (rows df')"
    apply -
    apply (rule exI [of _ "df'"], rule exI [of _ top_10])
    apply simp
    done
qed

theorem cleaner_mutates_in_place_witness:
  "''Population'' \<in> set (columns with_regions) \<and>
   (\<forall>lib. \<exists>df' msgs top_10.
      clean_and_analyze_population_data lib (Frame with_regions) = (Frame df', msgs, Some top_10)
      \<and> columns df' = [''Country'', ''Region'', ''Population'']
      \<and> map (\<lambda>r. r ''Country'') (rows df') = [Str ''A'', Str ''C'']
      \<and> map (\<lambda>r. r ''Region'') (rows df') = [Str ''Asia'', Str ''Africa'']
      \<and> map (\<lambda>r. r ''Population'') (rows df') = [FloatV 1400, FloatV 200])"
proof (intro conjI allI)
  show p: "''Population'' \<in> set (columns with_regions)"
    by (simp add: with_regions_def)
  fix lib
  have f: "filter (\<lambda>r. parsed lib (r ''Population'') \<noteq> None) (rows with_regions)
      = [region_row ''A'' ''Asia'' (IntV 1400), region_row ''C'' ''Africa'' (IntV 200)]"
    by (simp add: with_regions_def region_row_def country_row_def parsed_with_regions)
  from cleaner_mutates_in_place [OF p, of lib] obtain df' msgs top_10 where
    c: "clean_and_analyze_population_data lib (Frame with_regions) = (Frame df', msgs, Some top_10)"
    and k: "columns df' = columns with_regions"
    and r: "rows df' = map (\<lambda>r. r(''Population'' := FloatV (the (parsed lib (r ''Population'')))))
             (filter (\<lambda>r. parsed lib (r ''Population'') \<noteq> None) (rows with_regions))"
    by blast
  have k1: "columns df' = [''Country'', ''Region'', ''Population'']"
    using k by (simp add: with_regions_def)
  have r1: "map (\<lambda>r. r ''Country'') (rows df') = [Str ''A'', Str ''C'']"
    unfolding r f by (simp add: region_row_def country_row_def)
  have r2: "map (\<lambda>r. r ''Region'') (rows df') = [Str ''Asia'', Str ''Africa'']"
    unfolding r f by (simp add: region_row_def country_row_def)
  have r3: "map (\<lambda>r. r ''Population'') (rows df') = [FloatV 1400, FloatV 200]"
    unfolding r f by (simp add: region_row_def country_row_def parsed_with_regions)
  from c k1 r1 r2 r3 show "\<exists>df' msgs top_10.
      clean_and_analyze_population_data lib (Frame with_regions) = (Frame df', msgs, Some top_10)
      \<and> columns df' = [''Country'', ''Region'', ''Population'']
      \<and> map (\<lambda>r. r ''Country'') (rows df') = [Str ''A'', Str ''C'']
      \<and> map (\<lambda>r. r ''Region'') (rows df') = [Str ''Asia'', Str ''Africa'']
      \<and> map (\<lambda>r. r ''Population'') (rows df') = [FloatV 1400, FloatV 200]"
    apply -
    apply (rule exI [of _ "df'"], rule exI [of _ msgs], rule exI [of _ top_10])
    apply simp
    done
qed





section \<open>The table extractor\<close>

lemma find_population_table_result:
  "snd (find_population_table tables) =
     (if list_all text_labels (takeWhile (\<lambda>t. \<not> has_population t) tables)
      then Inr (case find has_population tables of Some t \<Rightarrow> stripped t | None \<Rightarrow> empty_frame)
      else Inl AttributeError)"
proof (induction tables)
  case Nil
  then show ?case by simp
next
  case (Cons t ts)
  then show ?case
    by (cases t) (auto simp: rename_columns_def)
qed


text \<open>
  What the extractor returns for a page that was fetched and parsed: the first table whose
  stripped labels contain the exact name Population, provided every table before it has
  text labels, and the empty frame otherwise.
\<close>

lemma scrape_result:
  assumes "http_get env url = Inr html" and "read_html env html = Inr tables"
  shows "snd (scrape_wiki_tables env url) =
     (if list_all text_labels (takeWhile (\<lambda>t. \<not> has_population t) tables)
      then (case find has_population tables of Some t \<Rightarrow> stripped t | None \<Rightarrow> empty_frame)
      else empty_frame)"
proof -
  obtain out r where f: "find_population_table tables = (out, r)"
    by (cases "find_population_table tables")
  then have r: "r = snd (find_population_table tables)" by simp
  have "scrape_try env url = (Found_tables (length tables) # out, r)"
    using assms f by (simp add: scrape_try_def)
  then show ?thesis
    unfolding r find_population_table_result
    by (simp add: scrape_wiki_tables_def)
qed

lemma strip_labels:
  "strip '' Country'' = ''Country''" "strip ''Population '' = ''Population''"
  "strip ''Year'' = ''Year''" "strip ''Event'' = ''Event''"
  "strip ''Country'' = ''Country''" "strip ''Population'' = ''Population''"
  by (simp_all add: strip_def is_space_def)

lemma scrape_text_labelled:
  assumes "http_get env url = Inr html" and "read_html env html = Inr tables"
    and "list_all text_labels tables"
  shows "snd (scrape_wiki_tables env url) =
     (case find has_population tables of Some t \<Rightarrow> stripped t | None \<Rightarrow> empty_frame)"
proof -
  have "list_all text_labels (takeWhile (\<lambda>t. \<not> has_population t) tables)"
    using assms(3) by (auto simp: list_all_iff dest: set_takeWhileD)
  then show ?thesis
    using scrape_result [OF assms(1,2)] by simp
qed

lemma scrape_skips_tables_without_population:
  "http_get (page_with [Labelled timeline, Labelled spaced_countries, Labelled four_countries]) ''u''
     = Inr ''<html>''
   \<and> read_html (page_with [Labelled timeline, Labelled spaced_countries, Labelled four_countries]) ''<html>''
     = Inr [Labelled timeline, Labelled spaced_countries, Labelled four_countries]
   \<and> columns (snd (scrape_wiki_tables
        (page_with [Labelled timeline, Labelled spaced_countries, Labelled four_countries]) ''u''))
     = [''Country'', ''Population'']
   \<and> map (\<lambda>r. r ''Population'') (rows (snd (scrape_wiki_tables
        (page_with [Labelled timeline, Labelled spaced_countries, Labelled four_countries]) ''u'')))
     = [Str ''5'', Str ''3'']"
proof -
  let ?ts = "[Labelled timeline, Labelled spaced_countries, Labelled four_countries]"
  have g: "http_get (page_with ?ts) ''u'' = Inr ''<html>''"
    by (simp add: page_with_def)
  have h: "read_html (page_with ?ts) ''<html>'' = Inr ?ts"
    by (simp add: page_with_def)
  have p: "\<not> has_population (Labelled timeline)" "has_population (Labelled spaced_countries)"
    by (simp_all add: timeline_def spaced_countries_def strip_labels)
  have "snd (scrape_wiki_tables (page_with ?ts) ''u'') = rename_columns strip spaced_countries"
    using scrape_result [OF g h] p by simp
  then show ?thesis
    using g h by (simp add: rename_columns_def spaced_countries_def strip_labels)
qed

text \<open>
  C4. The extractor is to return the first table, in page order, whose stripped labels
  contain the exact name Population, whatever tables stand before or after it. The code
  does so when the tables of the page have text labels (lemma \<open>scrape_text_labelled\<close>),
  but not in general. On the page below the first table has no header cells and the
  second has the columns Country and Population: line 20 raises on the first table, the
  handler of lines 31 to 33 ends the scan, and the result is the empty frame, not the second
  table.
\<close>

theorem scrape_misses_population_table:
  "http_get (page_with [infobox, Labelled four_countries]) ''u'' = Inr ''<html>''
   \<and> read_html (page_with [infobox, Labelled four_countries]) ''<html>''
       = Inr [infobox, Labelled four_countries]
   \<and> find has_population [infobox, Labelled four_countries] = Some (Labelled four_countries)
   \<and> columns (stripped (Labelled four_countries)) = [''Country'', ''Population'']
   \<and> scrape_wiki_tables (page_with [infobox, Labelled four_countries]) ''u''
       = ([Attempting_to_scrape ''u'', Found_tables 2, Error_scraping_tables AttributeError],
          empty_frame)
   \<and> snd (scrape_wiki_tables (page_with [infobox, Labelled four_countries]) ''u'')
       \<noteq> (case find has_population [infobox, Labelled four_countries] of
             Some t \<Rightarrow> stripped t | None \<Rightarrow> empty_frame)"
proof -
  have a: "find has_population [infobox, Labelled four_countries] = Some (Labelled four_countries)"
    by (simp add: infobox_def four_countries_def strip_labels)
  have b: "columns (stripped (Labelled four_countries)) = [''Country'', ''Population'']"
    by (simp add: four_countries_def strip_labels rename_columns_def)
  have c: "scrape_wiki_tables (page_with [infobox, Labelled four_countries]) ''u''
       = ([Attempting_to_scrape ''u'', Found_tables 2, Error_scraping_tables AttributeError],
          empty_frame)"
    by (simp add: page_with_def infobox_def scrape_wiki_tables_def scrape_try_def)
  have "columns empty_frame \<noteq> columns (stripped (Labelled four_countries))"
    unfolding b by (simp add: empty_frame_def)
  then have d: "empty_frame \<noteq> stripped (Labelled four_countries)"
    by auto
  show ?thesis
    using a b c d by (simp add: page_with_def)
qed

section \<open>The chart renderer\<close>

lemma contains_sublist: "contains sub s \<longleftrightarrow> sublist sub s"
  by (induction s) (auto simp: sublist_Cons_right)

lemma first_country_column_find:
  "first_country_column cols = find (\<lambda>c. contains ''Country'' c \<or> contains ''Dependency'' c) cols"
  by (induction cols) auto

lemma first_text_column_find:
  "first_text_column dt cols =
     find (\<lambda>c. dt c = Object \<and> \<not> contains ''Population'' c \<and> \<not> contains ''Region'' c
                \<and> \<not> contains ''Date'' c) cols"
  by (induction cols) auto

text \<open>
  C5. For a ranked subset that is not empty, the label column drawn is the first column
  whose name contains \<^verbatim>\<open>Country\<close> or \<^verbatim>\<open>Dependency\<close>; if there is none, the first column
  of dtype object whose name contains none of \<^verbatim>\<open>Population\<close>, \<^verbatim>\<open>Region\<close>, \<^verbatim>\<open>Date\<close>; if
  there is none either, nothing is drawn and the only line printed reports that no
  suitable column was found. For the columns Country/Dependency, Population, Region the
  label column is Country/Dependency.
\<close>

theorem label_column_selection:
  assumes "\<not> is_empty df"
  shows "snd (create_population_chart plot (Some df)) =
     (case find (\<lambda>c. contains ''Country'' c \<or> contains ''Dependency'' c) (columns df) of
        Some c \<Rightarrow> Some c
      | None \<Rightarrow>
          find (\<lambda>c. dtypes df c = Object \<and> \<not> contains ''Population'' c
                     \<and> \<not> contains ''Region'' c \<and> \<not> contains ''Date'' c) (columns df))
   \<and> (snd (create_population_chart plot (Some df)) = None
        \<longrightarrow> fst (create_population_chart plot (Some df)) = [No_suitable_column])"
  using assms
  by (auto simp: create_population_chart_def first_country_column_find first_text_column_find
      Let_def split: option.splits)

theorem label_column_selection_witness:
  "\<not> is_empty ranked_example \<and> \<not> is_empty no_label_example \<and>
   (\<forall>plot. snd (create_population_chart plot (Some ranked_example)) = Some ''Country/Dependency''
      \<and> create_population_chart plot (Some no_label_example) = ([No_suitable_column], None))"
proof (intro conjI allI)
  show a: "\<not> is_empty ranked_example"
    by (simp add: is_empty_def ranked_example_def)
  show b: "\<not> is_empty no_label_example"
    by (simp add: is_empty_def no_label_example_def)
  fix plot
  show "snd (create_population_chart plot (Some ranked_example)) = Some ''Country/Dependency''"
    using label_column_selection [OF a, of plot] by (simp add: ranked_example_def)
  have "snd (create_population_chart plot (Some no_label_example)) = None"
    using label_column_selection [OF b, of plot] by (simp add: no_label_example_def)
  moreover from this have "fst (create_population_chart plot (Some no_label_example)) = [No_suitable_column]"
    using label_column_selection [OF b, of plot] by blast
  ultimately show "create_population_chart plot (Some no_label_example) = ([No_suitable_column], None)"
    by (simp add: prod_eq_iff)
qed

section \<open>The section analyzer\<close>

lemma paths_and_nodes:
  "map (subtree n) (descendant_paths n) = map Some (descendants n)"
  "\<And>t cls i pre. length pre = k \<Longrightarrow>
     map (subtree (Element t cls i (pre @ cs))) (child_paths k cs)
     = map Some (concat (map (\<lambda>c. c # descendants c) cs))"
proof (induction n and k cs rule: descendant_paths_child_paths.induct)
  case (1 s)
  then show ?case by simp
next
  case (2 t cls i cs)
  have "map (subtree (Element t cls i ([] @ cs))) (child_paths 0 cs)
        = map Some (concat (map (\<lambda>c. c # descendants c) cs))"
    by (rule 2) simp
  then show ?case by simp
next
  case (3 k)
  then show ?case by simp
next
  case (4 k c cs)
  have n: "(pre @ c # cs) ! k = c" and l: "k < length (pre @ c # cs)"
    using 4(3) by (auto simp: nth_append)
  have a: "subtree (Element t cls i (pre @ c # cs)) [k] = Some c"
    using n l by simp
  have b: "map (subtree (Element t cls i (pre @ c # cs))) (map ((#) k) (descendant_paths c))
        = map Some (descendants c)"
    using 4(1) n l by (simp add: o_def)
  have c: "map (subtree (Element t cls i ((pre @ [c]) @ cs))) (child_paths (Suc k) cs)
        = map Some (concat (map (\<lambda>c. c # descendants c) cs))"
    using 4(3) by (intro 4(2)) simp
  show ?case using a b c by simp
qed


lemma paths_found:
  "map (subtree soup) (find_all_paths P soup) = map Some (find_all P soup)"
proof -
  let ?Q = "\<lambda>v. case v of Some n \<Rightarrow> P n | None \<Rightarrow> False"
  have "map (subtree soup) (filter (\<lambda>p. ?Q (subtree soup p)) (descendant_paths soup))
        = filter ?Q (map (subtree soup) (descendant_paths soup))"
    by (simp add: filter_map o_def)
  also have "\<dots> = filter ?Q (map Some (descendants soup))"
    by (simp add: paths_and_nodes(1))
  also have "\<dots> = map Some (filter P (descendants soup))"
    by (simp add: filter_map o_def)
  finally show ?thesis
    by (simp add: find_all_paths_def find_all_def)
qed

lemma no_paths_no_nodes: "find_all_paths P soup = [] \<longleftrightarrow> find_all P soup = []"
  using paths_found [of soup P] by (metis map_is_Nil_conv)

lemma analyze_sections_length: "length (analyze_sections soup hs) = length hs"
  by (induction hs) simp_all

lemma analyze_sections_nth:
  "k < length hs \<Longrightarrow>
   analyze_sections soup hs ! k =
     (case find_next_sibling soup (parent (hs ! k)) ''div'' of
        Some d \<Rightarrow> count_attributes_in_section (text_at soup (hs ! k)) d
      | None \<Rightarrow> No_content_for_section (text_at soup (hs ! k)))"
proof (induction hs arbitrary: k)
  case Nil
  then show ?case by simp
next
  case (Cons h hs)
  show ?case
  proof (cases k)
    case 0
    then show ?thesis by (simp add: Let_def split: option.splits)
  next
    case (Suc j)
    with Cons.prems have "j < length hs" by simp
    then have "analyze_sections soup hs ! j =
       (case find_next_sibling soup (parent (hs ! j)) ''div'' of
          Some d \<Rightarrow> count_attributes_in_section (text_at soup (hs ! j)) d
        | None \<Rightarrow> No_content_for_section (text_at soup (hs ! j)))"
      by (rule Cons.IH)
    moreover have "(h # hs) ! k = hs ! j" and "analyze_sections soup (h # hs) ! k = analyze_sections soup hs ! j"
      using Suc by simp_all
    ultimately show ?thesis by (simp split: option.splits)
  qed
qed

text \<open>
  C6, as amended. For a fetched page with no section-heading marker, the analyzer prints
  that no main sections were found; if the page has an element \<^verbatim>\<open>div\<close> with the id
  \<^verbatim>\<open>mw-content-text\<close>, it reports exactly one section, named Main Content, whose four counts
  are taken over the paragraphs of the first such element; if the page has no such element,
  it reports no section at all.
\<close>

theorem main_content_section:
  assumes "http_get env url = Inr text" and "html5lib text = Inr soup"
    and "find_all is_headline soup = []"
  shows "analyze_page_content env html5lib url =
     Analyzing_page url # No_main_sections #
     (case find_first is_content_text soup of
        Some body_content \<Rightarrow>
          [Section_counts ''Main Content''
             (length (find_all (has_tag ''p'') body_content))
             (sum_list (map (\<lambda>p. length (find_all (has_tag ''a'') p))
                (find_all (has_tag ''p'') body_content)))
             (sum_list (map (\<lambda>p. length (find_all (has_tag ''img'') p))
                (find_all (has_tag ''p'') body_content)))
             (sum_list (map (\<lambda>p. length (findall_words [] (get_text p)))
                (find_all (has_tag ''p'') body_content)))]
      | None \<Rightarrow> [])
   \<and> reported_sections (analyze_page_content env html5lib url) =
       (case find_first is_content_text soup of
          Some body_content \<Rightarrow> [''Main Content'']
        | None \<Rightarrow> [])"
proof -
  have "find_all_paths is_headline soup = []"
    using assms(3) by (simp add: no_paths_no_nodes)
  then show ?thesis
    using assms(1,2)
    by (simp add: analyze_page_content_def count_attributes_in_section_def Let_def
        reported_sections_def List.map_filter_simps split: option.splits)
qed

text \<open>
  C7. For a fetched page with headings, the analyzer prints one message for every heading,
  in page order: for a heading whose enclosing element has no later sibling \<^verbatim>\<open>div\<close> the
  message that no content was found for that section, with no counts, and for every
  other heading the counts of its section. A heading without content does not end the
  run.
\<close>

theorem headings_without_content_are_skipped:
  assumes "http_get env url = Inr text" and "html5lib text = Inr soup"
    and "find_all_paths is_headline soup = headers" and "headers \<noteq> []"
  shows "length (analyze_page_content env html5lib url) = Suc (length headers)
     \<and> hd (analyze_page_content env html5lib url) = Analyzing_page url
     \<and> (\<forall>k < length headers.
           analyze_page_content env html5lib url ! Suc k =
             (case find_next_sibling soup (parent (headers ! k)) ''div'' of
                None \<Rightarrow> No_content_for_section (text_at soup (headers ! k))
              | Some d \<Rightarrow> count_attributes_in_section (text_at soup (headers ! k)) d))"
proof -
  have "analyze_page_content env html5lib url = Analyzing_page url # analyze_sections soup headers"
    using assms by (simp add: analyze_page_content_def)
  then show ?thesis
    by (auto simp: analyze_sections_length analyze_sections_nth split: option.splits)
qed


lemma plain_page_facts:
  "find_all is_headline plain_page = []"
  "find_first is_content_text plain_page =
     Some (Element ''div'' [] (Some ''mw-content-text'')
          [Element ''p'' [] None [Text ''Hello world '', Element ''a'' [] None [Text ''link'']],
           Element ''p'' [] None [Element ''img'' [] None []]])"
  by (simp_all add: plain_page_def document_def find_all_def find_first_def)

theorem main_content_section_witness:
  "http_get (page_with []) ''u'' = Inr ''<html>''
   \<and> find_all is_headline plain_page = []
   \<and> analyze_page_content (page_with []) (\<lambda>text. Inr plain_page) ''u''
       = [Analyzing_page ''u'', No_main_sections, Section_counts ''Main Content'' 2 1 1 3]
   \<and> reported_sections (analyze_page_content (page_with []) (\<lambda>text. Inr plain_page) ''u'')
       = [''Main Content'']"
proof -
  have g: "http_get (page_with []) ''u'' = Inr ''<html>''"
    by (simp add: page_with_def)
  have h: "(\<lambda>text. Inr plain_page :: exn + node) ''<html>'' = Inr plain_page"
    by simp
  show ?thesis
    using main_content_section [OF g h plain_page_facts(1)] g
    unfolding plain_page_facts
    by (simp add: find_all_def is_word_char_def is_digit_def reported_sections_def
        List.map_filter_simps)
qed

text \<open>
  C6 as stated fails: a page without headings and without the content container is
  reported with no section.
\<close>

theorem main_content_section_counterexample:
  "http_get (page_with []) ''u'' = Inr ''<html>''
   \<and> find_all is_headline bare_page = []
   \<and> analyze_page_content (page_with []) (\<lambda>text. Inr bare_page) ''u''
       = [Analyzing_page ''u'', No_main_sections]
   \<and> reported_sections (analyze_page_content (page_with []) (\<lambda>text. Inr bare_page) ''u'') = []
   \<and> reported_sections (analyze_page_content (page_with []) (\<lambda>text. Inr bare_page) ''u'')
       \<noteq> [''Main Content'']"
  by (simp add: page_with_def bare_page_def document_def find_all_def find_first_def
      find_all_paths_def analyze_page_content_def reported_sections_def List.map_filter_simps)

lemma two_sections_headers:
  "find_all_paths is_headline two_sections = [[0, 1, 0, 0, 0], [0, 1, 1, 0, 0]]"
  by (simp add: two_sections_def document_def find_all_paths_def)

theorem headings_without_content_are_skipped_witness:
  "http_get (page_with []) ''u'' = Inr ''<html>''
   \<and> find_all_paths is_headline two_sections = [[0, 1, 0, 0, 0], [0, 1, 1, 0, 0]]
   \<and> find_next_sibling two_sections (parent [0, 1, 0, 0, 0]) ''div'' = None
   \<and> length (analyze_page_content (page_with []) (\<lambda>text. Inr two_sections) ''u'') = 3
   \<and> analyze_page_content (page_with []) (\<lambda>text. Inr two_sections) ''u'' ! 1
       = No_content_for_section ''History''
   \<and> analyze_page_content (page_with []) (\<lambda>text. Inr two_sections) ''u'' ! 2
       = Section_counts ''Geography'' 1 0 0 2"
proof -
  let ?out = "analyze_page_content (page_with []) (\<lambda>text. Inr two_sections) ''u''"
  let ?hs = "[[0, 1, 0, 0, 0], [0, 1, 1, 0, 0 :: nat]]"
  have g: "http_get (page_with []) ''u'' = Inr ''<html>''"
    by (simp add: page_with_def)
  have h: "(\<lambda>text. Inr two_sections :: exn + node) ''<html>'' = Inr two_sections"
    by simp
  have ne: "?hs \<noteq> []" by simp
  note t = headings_without_content_are_skipped [OF g h two_sections_headers ne]
  have s1: "find_next_sibling two_sections (parent [0, 1, 0, 0, 0]) ''div'' = None"
    by (simp add: find_next_sibling_def parent_def two_sections_def document_def)
  have s2: "find_next_sibling two_sections (parent [0, 1, 1, 0, 0]) ''div''
      = Some (Element ''div'' [] None [Element ''p'' [] None [Text ''Two words'']])"
    by (simp add: find_next_sibling_def parent_def two_sections_def document_def)
  have n1: "text_at two_sections [0, 1, 0, 0, 0] = ''History''"
    and n2: "text_at two_sections [0, 1, 1, 0, 0] = ''Geography''"
    by (simp_all add: text_at_def two_sections_def document_def)
  have c: "count_attributes_in_section ''Geography''
         (Element ''div'' [] None [Element ''p'' [] None [Text ''Two words'']])
       = Section_counts ''Geography'' 1 0 0 2"
    by (simp add: count_attributes_in_section_def find_all_def is_word_char_def is_digit_def)
  from t have l: "length ?out = 3" by simp
  have o1: "?out ! 1 = No_content_for_section ''History''"
    using t [THEN conjunct2, THEN conjunct2, rule_format, of 0] s1 n1 by simp
  have o2: "?out ! 2 = Section_counts ''Geography'' 1 0 0 2"
    using t [THEN conjunct2, THEN conjunct2, rule_format, of 1] s2 n2 c
    by (simp add: numeral_2_eq_2)
  show ?thesis
    using g two_sections_headers s1 l o1 o2 by simp
qed

section \<open>Errors\<close>










end
